theory Spec2Isabelle
  imports
    Complex_Main
    "HOL-Library.Sublist"
    "HOL-Library.Char_ord"
    "HOL-Library.List_Lexorder"
    "HOL-Library.Product_Lexorder"
begin

section \<open>Conventions of the embedding\<close>

text \<open>
  The development embeds four services of the repository: the server-side lite scorer
  (\<^verbatim>\<open>server_lite_scorer.py\<close>), the candidate store (\<^verbatim>\<open>candidate_store.py\<close>), the
  scheduler (\<^verbatim>\<open>scheduler.py\<close>) and the session worker (\<^verbatim>\<open>deep_worker_v2.py\<close>).

  \<^item> Python \<^verbatim>\<open>float\<close> values are modelled as \<^typ>\<open>real\<close>: the arithmetic of the source is
    kept operation by operation, rounding is not modelled.
  \<^item> Python \<^verbatim>\<open>int\<close> values are \<^typ>\<open>int\<close>; \<^verbatim>\<open>%\<close> with a positive divisor is \<open>mod\<close>.
  \<^item> A \<^verbatim>\<open>dict\<close> is a map; \<^verbatim>\<open>d.get(k, default)\<close> is \<open>dict_get\<close>.
  \<^item> Wall-clock readings (\<^verbatim>\<open>time.time()\<close>, \<^verbatim>\<open>datetime.utcnow()\<close>) are arguments.
  \<^item> The built-in \<^verbatim>\<open>hash\<close> of a string is salted per interpreter process, so it is an
    argument as well: one function \<open>string \<Rightarrow> int\<close> per process.
\<close>

definition dict_get :: "('k \<rightharpoonup> 'v) \<Rightarrow> 'k \<Rightarrow> 'v \<Rightarrow> 'v" where
  "dict_get d k dflt = (case d k of None \<Rightarrow> dflt | Some v \<Rightarrow> v)"

section \<open>Lite scorer: \<^verbatim>\<open>LiteClassifier._calculate_exact_score\<close>\<close>

record score_factors =
  base :: real
  pet_factor :: real
  perimeter_factor :: real
  night_factor :: real
  mode_factor :: real

record score_result =
  score :: real
  confidence :: real
  threshold_met :: string
  result_mode :: string
  factors :: score_factors

definition mode_factors :: "string \<rightharpoonup> real" where
  "mode_factors = [''stealth'' \<mapsto> 0.70, ''guardian'' \<mapsto> 1.00, ''perimeter'' \<mapsto> 1.30]"

definition thresholds :: "string \<rightharpoonup> real \<times> real" where
  "thresholds = [''stealth'' \<mapsto> (0.35, 0.65), ''guardian'' \<mapsto> (0.30, 0.60),
                 ''perimeter'' \<mapsto> (0.25, 0.50)]"

definition calculate_exact_score ::
  "(string \<Rightarrow> int) \<Rightarrow> (string \<rightharpoonup> bool) \<Rightarrow> string \<Rightarrow> string \<Rightarrow> score_result" where
  "calculate_exact_score hash channels image_name md =
    (let b = 1.00 * (if dict_get channels ''person'' False then 1 else 0)
           + 0.70 * (if dict_get channels ''vehicle'' False then 1 else 0)
           + 0.15 * (if dict_get channels ''linger'' False then 1 else 0);
         pf = 1 - 0.60 * (if dict_get channels ''pet'' False then 1 else 0);
         mock_distance = real_of_int (hash image_name mod 50) / 10.0;
         perf = (if mock_distance < 1.5 then 1.25 else 1.0);
         is_night = (hash image_name mod 4 = 0);
         nf = (if is_night then 1.15 else 1.0);
         mf = dict_get mode_factors md 1.00;
         final_score = b * pf * perf * nf * mf;
         final_score = max 0.0 (min 1.0 final_score);
         (low_thresh, high_thresh) = dict_get thresholds md (0.30, 0.60);
         tm = (if final_score < low_thresh then ''low''
               else if final_score < high_thresh then ''medium''
               else ''high'')
     in \<lparr> score = final_score, confidence = final_score, threshold_met = tm,
          result_mode = md,
          factors = \<lparr> base = b, pet_factor = pf, perimeter_factor = perf,
                      night_factor = nf, mode_factor = mf \<rparr> \<rparr>)"

subsection \<open>The scoring contract as the specification words it\<close>








section \<open>Event candidates: \<^verbatim>\<open>candidate_store.py\<close>\<close>

datatype Priority = LOW | NORMAL | HIGH | CRITICAL


datatype ProcessingTier = LITE_ONLY | STANDARD | PREMIUM | ENTERPRISE


text \<open>The dataclass \<^verbatim>\<open>EventCandidate\<close>; \<open>timestamp\<close> is in seconds.\<close>

record EventCandidate =
  event_id :: string
  home_id :: string
  user_id :: string
  timestamp :: real
  priority :: Priority
  processing_tier :: ProcessingTier
  image_url :: string
  location :: string
  mode :: string
  lite_processed :: bool
  lite_channels :: "(string \<rightharpoonup> bool) option"
  lite_explainer :: "string option"
  lite_confidence :: "real option"
  person_detected :: bool
  vehicle_detected :: bool
  motion_score :: real
  time_of_day_factor :: real
  location_importance :: real


section \<open>Messages and results: \<^verbatim>\<open>deep_worker_v2.py\<close>\<close>

text \<open>
  A session descriptor travels as JSON and \<^verbatim>\<open>ProcessingSession.from_json\<close> copies the
  fields \<^verbatim>\<open>K\<close> and \<^verbatim>\<open>deadline_ms\<close> without checking their type, so they are JSON values
  here. The two fields whose names the candidate record has already taken carry the
  prefix \<open>session\<close>.
\<close>

datatype json_value = JNull | JInt int | JFloat real | JStr string

record ProcessingSession =
  session_id :: string
  session_home_id :: string
  event_ids :: "string list"
  tier :: string
  K :: json_value
  deadline_ms :: json_value
  session_priority :: string
  enqueued_at :: real
  bypass_reason :: "string option"

text \<open>The payload pushed by \<^verbatim>\<open>_notify_scheduler_completion\<close>.\<close>

record completion_data =
  completion_event_id :: string
  completion_worker_id :: string
  completion_success :: bool
  completed_at :: real

record detection =
  detection_class :: string
  detection_confidence :: real

text \<open>
  An entry of \<^verbatim>\<open>findings["events_processed"]\<close>: a dictionary whose keys other than
  \<^verbatim>\<open>event_id\<close> and \<^verbatim>\<open>success\<close> may be missing.
\<close>

record event_result =
  result_event_id :: string
  result_success :: bool
  detections :: "detection list option"
  result_confidence :: "real option"
  result_risk_score :: "real option"
  result_error :: "string option"

record threat_indicator =
  threat_type :: string
  threat_confidence :: real
  threat_event_id :: string

record processing_stats =
  total_events :: nat
  stats_deadline_ms :: json_value
  stats_tier :: string

text \<open>The \<^verbatim>\<open>findings\<close> dictionary; its textual \<^verbatim>\<open>summary\<close> is not modelled.\<close>

record findings =
  findings_session_id :: string
  events_processed :: "event_result list"
  risk_score :: real
  threat_indicators :: "threat_indicator list"
  stats :: processing_stats

text \<open>The dataclass \<^verbatim>\<open>SessionResult\<close>; the empty dictionary of a failure is \<open>None\<close>.\<close>

record SessionResult =
  result_session_id :: string
  success :: bool
  processing_duration_ms :: int
  result_timestamp :: real
  result_findings :: "findings option"
  error_message :: "string option"

record digest_data =
  digest_session_id :: string
  digest_home_id :: string
  digest_tier :: string
  digest_findings :: "findings option"
  digest_duration_ms :: int
  digest_completed_at :: real

datatype payload =
  SessionPayload ProcessingSession
| CompletionPayload completion_data
| DigestPayload digest_data

section \<open>The shared key-value store\<close>

text \<open>
  All three services talk to one Redis server. Its state is modelled by one component for
  each type of value the services keep there. A sorted set is an association list from
  member to score with distinct members; an absent key and an empty aggregate are the
  same thing, as in Redis. Redis orders a sorted set by score and, among equal scores, by
  the members' bytes; \<open>ZRANGE\<close> reads that order upwards and \<open>ZREVRANGE\<close> downwards. Index
  ranges are inclusive and a negative index counts from the end. The serialisation of
  hash fields and of queue payloads to strings is not modelled: a hash holds the
  candidate's fields, a list holds the messages' fields. The component \<open>ttl\<close> records the
  time to live last set for a key; the passing of time is not modelled. Commands do not
  fail: a connection error, which every caller catches and turns into a \<open>False\<close> or empty
  reply, is outside the model.
\<close>

type_synonym zset = "(string \<times> real) list"

record redis =
  hashes :: "string \<rightharpoonup> EventCandidate"
  zsets :: "string \<Rightarrow> zset"
  sets :: "string \<Rightarrow> string set"
  lists :: "string \<Rightarrow> payload list"
  strings :: "string \<rightharpoonup> SessionResult"
  ttl :: "string \<rightharpoonup> nat"

definition empty_redis :: redis where
  "empty_redis = \<lparr> hashes = Map.empty, zsets = (\<lambda>_. []), sets = (\<lambda>_. {}),
                   lists = (\<lambda>_. []), strings = Map.empty, ttl = Map.empty \<rparr>"





definition delete_key :: "redis \<Rightarrow> string \<Rightarrow> redis" where
  "delete_key r k =
     r\<lparr> hashes := (hashes r)(k := None), zsets := (zsets r)(k := []),
        sets := (sets r)(k := {}), lists := (lists r)(k := []),
        strings := (strings r)(k := None), ttl := (ttl r)(k := None) \<rparr>"

fun zadd_member :: "string \<Rightarrow> real \<Rightarrow> zset \<Rightarrow> zset" where
  "zadd_member m sc [] = [(m, sc)]"
| "zadd_member m sc ((m', sc') # z) =
     (if m' = m then (m, sc) # z else (m', sc') # zadd_member m sc z)"









definition lpush :: "redis \<Rightarrow> string \<Rightarrow> payload \<Rightarrow> redis" where
  "lpush r k x = r\<lparr> lists := (lists r)(k := x # lists r k) \<rparr>"

definition setex :: "redis \<Rightarrow> string \<Rightarrow> nat \<Rightarrow> SessionResult \<Rightarrow> redis" where
  "setex r k seconds v = r\<lparr> strings := (strings r)(k \<mapsto> v), ttl := (ttl r)(k \<mapsto> seconds) \<rparr>"

section \<open>The candidate store: \<^verbatim>\<open>CandidateStore\<close>\<close>

text \<open>The keys \<^verbatim>\<open>f"cand:{home_id}"\<close> and \<^verbatim>\<open>f"ev:{event_id}"\<close>.\<close>

definition cand_key :: "string \<Rightarrow> string" where
  "cand_key hid = ''cand:'' @ hid"

definition ev_key :: "string \<Rightarrow> string" where
  "ev_key eid = ''ev:'' @ eid"











text \<open>Python's \<^verbatim>\<open>xs[:k]\<close> for an integer \<open>k\<close>.\<close>

definition py_slice_to :: "'a list \<Rightarrow> int \<Rightarrow> 'a list" where
  "py_slice_to xs k = (if k \<ge> 0 then take (nat k) xs else take (nat (int (length xs) + k)) xs)"




section \<open>Token buckets and the scheduler: \<^verbatim>\<open>scheduler.py\<close>\<close>

record TokenBucket =
  capacity :: int
  tokens :: real
  refill_rate :: real
  last_refill :: real

text \<open>
  The scheduler object: its buckets, its in-flight set, and the store that both its own
  client and its candidate store's client reach.
\<close>

record ProcessingScheduler =
  token_buckets :: "ProcessingTier \<rightharpoonup> TokenBucket"
  processing_jobs :: "string set"
  store :: redis

definition throttle_reduction :: real where
  "throttle_reduction = 0.4"

definition min_best_effort_k :: int where
  "min_best_effort_k = 5"

definition tier_limits :: "ProcessingTier \<Rightarrow> int" where
  "tier_limits t = (case t of LITE_ONLY \<Rightarrow> 0 | STANDARD \<Rightarrow> 2 | PREMIUM \<Rightarrow> 7 | ENTERPRISE \<Rightarrow> 32)"

text \<open>\<^verbatim>\<open>_initialize_token_buckets\<close>: a bucket for every tier with a positive limit.\<close>

definition initialize_token_buckets :: "real \<Rightarrow> (ProcessingTier \<rightharpoonup> TokenBucket)" where
  "initialize_token_buckets now t =
    (let limit_per_minute = tier_limits t
     in if limit_per_minute > 0
        then Some \<lparr> capacity = limit_per_minute, tokens = real_of_int limit_per_minute,
                    refill_rate = real_of_int limit_per_minute / 60.0, last_refill = now \<rparr>
        else None)"

definition new_scheduler :: "real \<Rightarrow> redis \<Rightarrow> ProcessingScheduler" where
  "new_scheduler now r =
     \<lparr> token_buckets = initialize_token_buckets now, processing_jobs = {}, store = r \<rparr>"

text \<open>Python's \<^verbatim>\<open>int(x)\<close> on a float truncates towards zero.\<close>

definition py_int :: "real \<Rightarrow> int" where
  "py_int x = (if x \<ge> 0 then \<lfloor>x\<rfloor> else \<lceil>x\<rceil>)"

text \<open>The body of the loop of \<^verbatim>\<open>_apply_autothrottle\<close>, for one bucket.\<close>

definition throttle_bucket :: "TokenBucket \<Rightarrow> TokenBucket" where
  "throttle_bucket bucket =
    (let original_capacity = capacity bucket;
         new_capacity = max min_best_effort_k
                          (py_int (real_of_int original_capacity * (1 - throttle_reduction)))
     in if new_capacity < original_capacity
        then bucket\<lparr> capacity := new_capacity,
                     tokens := min (tokens bucket) (real_of_int new_capacity) \<rparr>
        else bucket)"

definition apply_autothrottle :: "ProcessingScheduler \<Rightarrow> ProcessingScheduler" where
  "apply_autothrottle s =
     s\<lparr> token_buckets := (\<lambda>tier. map_option throttle_bucket (token_buckets s tier)) \<rparr>"

subsection \<open>Life-safety preemption\<close>







subsection \<open>Candidates and stores used as examples\<close>










section \<open>The session worker: \<^verbatim>\<open>DeepWorkerV2\<close>\<close>

text \<open>
  The exceptions that the session code can raise on its own account, with the text that
  \<^verbatim>\<open>str(e)\<close> gives.
\<close>

datatype py_exception = TypeError string | ZeroDivisionError string

fun exception_text :: "py_exception \<Rightarrow> string" where
  "exception_text (TypeError msg) = msg"
| "exception_text (ZeroDivisionError msg) = msg"

definition quoted :: "string \<Rightarrow> string" where
  "quoted s = [CHR 0x27] @ s @ [CHR 0x27]"

text \<open>\<^verbatim>\<open>session.deadline_ms / 1000.0\<close> on a JSON value.\<close>

definition deadline_in_seconds :: "json_value \<Rightarrow> py_exception + real" where
  "deadline_in_seconds v =
    (case v of
       JInt i \<Rightarrow> Inr (real_of_int i / 1000.0)
     | JFloat x \<Rightarrow> Inr (x / 1000.0)
     | JNull \<Rightarrow> Inl (TypeError (''unsupported operand type(s) for /: '' @ quoted ''NoneType''
                                 @ '' and '' @ quoted ''float''))
     | JStr s \<Rightarrow> Inl (TypeError (''unsupported operand type(s) for /: '' @ quoted ''str''
                                  @ '' and '' @ quoted ''float'')))"

text \<open>\<^verbatim>\<open>session.event_ids[:session.K]\<close> on a JSON value.\<close>

definition slice_to_K :: "string list \<Rightarrow> json_value \<Rightarrow> py_exception + string list" where
  "slice_to_K xs v =
    (case v of
       JInt k \<Rightarrow> Inr (py_slice_to xs k)
     | JNull \<Rightarrow> Inr xs
     | JFloat x \<Rightarrow>
         Inl (TypeError ''slice indices must be integers or None or have an __index__ method'')
     | JStr s \<Rightarrow>
         Inl (TypeError ''slice indices must be integers or None or have an __index__ method''))"

text \<open>Python's \<^verbatim>\<open>a / b\<close> on numbers.\<close>

definition py_truediv :: "real \<Rightarrow> real \<Rightarrow> py_exception + real" where
  "py_truediv a b = (if b = 0 then Inl (ZeroDivisionError ''float division by zero'')
                     else Inr (a / b))"

text \<open>
  The outcome of \<^verbatim>\<open>_process_session_event\<close>, the call into the inference collaborator:
  the dictionary it returns, or the text of an exception it lets escape.
\<close>

datatype event_outcome = Returned event_result | Raised string

record DeepWorkerV2 =
  worker_id :: string
  total_sessions_processed :: nat

definition threat_classes :: "string list" where
  "threat_classes = [''person'', ''vehicle'', ''weapon'', ''package'']"

definition extract_threats :: "string \<Rightarrow> event_result \<Rightarrow> threat_indicator list" where
  "extract_threats eid res =
    (case detections res of
       None \<Rightarrow> []
     | Some ds \<Rightarrow>
         map (\<lambda>d. \<lparr> threat_type = detection_class d,
                     threat_confidence = detection_confidence d,
                     threat_event_id = eid \<rparr>)
             (filter (\<lambda>d. detection_class d \<in> set threat_classes) ds))"

text \<open>\<^verbatim>\<open>event_result.get("risk_score", 0.0)\<close>.\<close>

definition risk_of :: "event_result \<Rightarrow> real" where
  "risk_of res = (case result_risk_score res of None \<Rightarrow> 0.0 | Some x \<Rightarrow> x)"

text \<open>The entry appended when the processing of an event raises.\<close>

definition error_entry :: "string \<Rightarrow> string \<Rightarrow> event_result" where
  "error_entry eid msg =
     \<lparr> result_event_id = eid, result_success = False, detections = None,
       result_confidence = None, result_risk_score = None, result_error = Some msg \<rparr>"

text \<open>The entry that one event leaves in \<^verbatim>\<open>events_processed\<close>.\<close>

definition event_entry :: "(string \<Rightarrow> event_outcome) \<Rightarrow> string \<Rightarrow> event_result" where
  "event_entry process_session_event eid =
    (case process_session_event eid of
       Returned res \<Rightarrow> res
     | Raised msg \<Rightarrow> error_entry eid msg)"

text \<open>The body of the loop over the events, on the findings and the running total.\<close>

definition process_one ::
  "(string \<Rightarrow> event_outcome) \<Rightarrow> string \<Rightarrow> findings \<times> real \<Rightarrow> findings \<times> real" where
  "process_one process_session_event eid st =
    (case st of (f, total_risk) \<Rightarrow>
      (case process_session_event eid of
         Returned res \<Rightarrow>
           (f\<lparr> events_processed := events_processed f @ [res],
               threat_indicators := threat_indicators f @ extract_threats eid res \<rparr>,
            total_risk + risk_of res)
       | Raised msg \<Rightarrow>
           (f\<lparr> events_processed := events_processed f @ [error_entry eid msg] \<rparr>,
            total_risk)))"

text \<open>
  The loop of \<^verbatim>\<open>_process_session\<close>. \<open>clock\<close> gives the successive readings of
  \<^verbatim>\<open>time.time()\<close>, in seconds, and \<open>n\<close> counts the readings made so far; the result
  carries the count after the loop.
\<close>

fun process_events ::
  "(nat \<Rightarrow> real) \<Rightarrow> (string \<Rightarrow> event_outcome) \<Rightarrow> real \<Rightarrow> real \<Rightarrow> nat \<Rightarrow> string list
     \<Rightarrow> findings \<times> real \<Rightarrow> (findings \<times> real) \<times> nat" where
  "process_events clock process_session_event start_time deadline_seconds n [] st = (st, n)"
| "process_events clock process_session_event start_time deadline_seconds n (eid # rest) st =
    (let elapsed_ms = (clock n - start_time) * 1000
     in if elapsed_ms > deadline_seconds * 1000 * 0.8 then (st, Suc n)
        else process_events clock process_session_event start_time deadline_seconds (Suc n) rest
               (process_one process_session_event eid st))"

text \<open>
  The \<^verbatim>\<open>try\<close> block of \<^verbatim>\<open>_process_session\<close> up to the findings: an exception comes with
  the number of clock readings made before it.
\<close>

definition session_findings ::
  "(nat \<Rightarrow> real) \<Rightarrow> (string \<Rightarrow> event_outcome) \<Rightarrow> ProcessingSession
     \<Rightarrow> py_exception \<times> nat + findings \<times> nat" where
  "session_findings clock process_session_event session =
    (let start_time = clock 0
     in case deadline_in_seconds (deadline_ms session) of
          Inl e \<Rightarrow> Inl (e, 1)
        | Inr deadline_seconds \<Rightarrow>
           (case slice_to_K (event_ids session) (K session) of
              Inl e \<Rightarrow> Inl (e, 1)
            | Inr events_to_process \<Rightarrow>
               (let f = \<lparr> findings_session_id = session_id session,
                          events_processed = [],
                          risk_score = 0.0,
                          threat_indicators = [],
                          stats = \<lparr> total_events = length events_to_process,
                                    stats_deadline_ms = deadline_ms session,
                                    stats_tier = tier session \<rparr> \<rparr>;
                    ((f, total_risk), n) =
                       process_events clock process_session_event start_time deadline_seconds
                         1 events_to_process (f, 0.0);
                    processed_count = length (events_processed f)
                in case py_truediv total_risk (real (max 1 processed_count)) of
                     Inl e \<Rightarrow> Inl (e, n)
                   | Inr mean \<Rightarrow> Inr (f\<lparr> risk_score := mean \<rparr>, n))))"

definition notify_scheduler_completion ::
  "redis \<Rightarrow> DeepWorkerV2 \<Rightarrow> real \<Rightarrow> string \<Rightarrow> bool \<Rightarrow> redis" where
  "notify_scheduler_completion r w utcnow eid ok =
     lpush r ''scheduler_completions''
       (CompletionPayload \<lparr> completion_event_id = eid, completion_worker_id = worker_id w,
                            completion_success = ok, completed_at = utcnow \<rparr>)"

text \<open>
  The loop \<^verbatim>\<open>for event_id in session.event_ids\<close> of the two handlers; \<open>wall\<close> gives the
  successive readings of \<^verbatim>\<open>datetime.utcnow()\<close> and \<open>k\<close> counts them.
\<close>

fun notify_all ::
  "redis \<Rightarrow> DeepWorkerV2 \<Rightarrow> (nat \<Rightarrow> real) \<Rightarrow> nat \<Rightarrow> bool \<Rightarrow> string list \<Rightarrow> redis" where
  "notify_all r w wall k ok [] = r"
| "notify_all r w wall k ok (eid # rest) =
     notify_all (notify_scheduler_completion r w (wall k) eid ok) w wall (Suc k) ok rest"

definition result_key :: "string \<Rightarrow> string" where
  "result_key sid = ''session_result:'' @ sid"

definition handle_session_success ::
  "(nat \<Rightarrow> real) \<Rightarrow> DeepWorkerV2 \<Rightarrow> redis \<Rightarrow> ProcessingSession \<Rightarrow> SessionResult \<Rightarrow> redis" where
  "handle_session_success wall w r session result =
    (let r = setex r (result_key (session_id session)) 86400 result;
         r = notify_all r w wall 1 True (event_ids session);
         digest = \<lparr> digest_session_id = session_id session,
                    digest_home_id = session_home_id session,
                    digest_tier = tier session,
                    digest_findings = result_findings result,
                    digest_duration_ms = processing_duration_ms result,
                    digest_completed_at = wall (Suc (length (event_ids session))) \<rparr>
     in lpush r ''digest_queue'' (DigestPayload digest))"

definition handle_session_failure ::
  "(nat \<Rightarrow> real) \<Rightarrow> DeepWorkerV2 \<Rightarrow> redis \<Rightarrow> ProcessingSession \<Rightarrow> SessionResult \<Rightarrow> redis" where
  "handle_session_failure wall w r session result =
    (let r = setex r (result_key (session_id session)) 86400 result
     in notify_all r w wall 1 False (event_ids session))"

text \<open>
  \<^verbatim>\<open>_process_session\<close>: the result, the worker and the store after it. The first reading
  of \<open>wall\<close> stamps the result.
\<close>

definition process_session ::
  "(nat \<Rightarrow> real) \<Rightarrow> (nat \<Rightarrow> real) \<Rightarrow> (string \<Rightarrow> event_outcome) \<Rightarrow> DeepWorkerV2 \<Rightarrow> redis
     \<Rightarrow> ProcessingSession \<Rightarrow> SessionResult \<times> DeepWorkerV2 \<times> redis" where
  "process_session clock wall process_session_event w r session =
    (let start_time = clock 0
     in case session_findings clock process_session_event session of
          Inr (f, n) \<Rightarrow>
            (let processing_duration = py_int ((clock n - start_time) * 1000);
                 result = \<lparr> result_session_id = session_id session,
                            success = True,
                            processing_duration_ms = processing_duration,
                            result_timestamp = wall 0,
                            result_findings = Some f,
                            error_message = None \<rparr>;
                 r = handle_session_success wall w r session result;
                 w = w\<lparr> total_sessions_processed := total_sessions_processed w + 1 \<rparr>
             in (result, w, r))
        | Inl (e, n) \<Rightarrow>
            (let processing_duration = py_int ((clock n - start_time) * 1000);
                 result = \<lparr> result_session_id = session_id session,
                            success = False,
                            processing_duration_ms = processing_duration,
                            result_timestamp = wall 0,
                            result_findings = None,
                            error_message = Some (exception_text e) \<rparr>;
                 r = handle_session_failure wall w r session result
             in (result, w, r)))"

subsection \<open>A worker, a collaborator, clocks and sessions used as examples\<close>

definition example_worker :: DeepWorkerV2 where
  "example_worker = \<lparr> worker_id = ''worker_1'', total_sessions_processed = 0 \<rparr>"

definition stub_event :: "string \<Rightarrow> event_outcome" where
  "stub_event eid = Returned \<lparr> result_event_id = eid, result_success = True,
      detections = Some [], result_confidence = Some 0.75, result_risk_score = Some 0.25,
      result_error = None \<rparr>"

text \<open>A clock that stands at 0 s, one that reads 0.8 s and one that reads 0.9 s after the start.\<close>

definition still_clock :: "nat \<Rightarrow> real" where
  "still_clock n = 0"


definition late_clock :: "nat \<Rightarrow> real" where
  "late_clock n = (if n = 0 then 0 else 0.9)"

definition example_session :: ProcessingSession where
  "example_session = \<lparr> session_id = ''s1'', session_home_id = ''h1'',
      event_ids = [''e1'', ''e2''], tier = ''premium'', K = JInt 10, deadline_ms = JInt 1000,
      session_priority = ''HIGH'', enqueued_at = 0, bypass_reason = None \<rparr>"

definition bad_K_session :: ProcessingSession where
  "bad_K_session = example_session \<lparr> K := JStr ''10'' \<rparr>"

definition zero_K_session :: ProcessingSession where
  "zero_K_session = example_session \<lparr> K := JInt 0 \<rparr>"

section \<open>Properties of the lite scorer\<close>





text \<open>
  Claim C1. The docstring of \<^verbatim>\<open>_calculate_exact_score\<close> requires the result to match the
  device's; the function however reads \<^verbatim>\<open>hash(image_name)\<close>, which differs between
  processes. With the same channels (vehicle and pet), the same image name and the same
  mode, a process whose hash of the name is 0 returns score 0.4025 in band medium, and a
  process whose hash is 17 returns score 0.28 in band low.
\<close>

theorem calculate_exact_score_process_dependent:
  "score (calculate_exact_score (\<lambda>_. 0) [''vehicle'' \<mapsto> True, ''pet'' \<mapsto> True]
            ''car_dog.jpg'' ''guardian'') = 161 / 400
   \<and> threshold_met (calculate_exact_score (\<lambda>_. 0) [''vehicle'' \<mapsto> True, ''pet'' \<mapsto> True]
            ''car_dog.jpg'' ''guardian'') = ''medium''
   \<and> score (calculate_exact_score (\<lambda>_. 17) [''vehicle'' \<mapsto> True, ''pet'' \<mapsto> True]
            ''car_dog.jpg'' ''guardian'') = 7 / 25
   \<and> threshold_met (calculate_exact_score (\<lambda>_. 17) [''vehicle'' \<mapsto> True, ''pet'' \<mapsto> True]
            ''car_dog.jpg'' ''guardian'') = ''low''"
  by (simp add: calculate_exact_score_def Let_def dict_get_def mode_factors_def thresholds_def)

section \<open>Properties of the store commands\<close>

lemma cand_key_eq [simp]: "cand_key h = cand_key h' \<longleftrightarrow> h = h'"
  by (simp add: cand_key_def)

lemma ev_key_eq [simp]: "ev_key e = ev_key e' \<longleftrightarrow> e = e'"
  by (simp add: ev_key_def)

lemma cand_key_neq_ev_key [simp]: "cand_key h \<noteq> ev_key e" "ev_key e \<noteq> cand_key h"
  by (simp_all add: cand_key_def ev_key_def)

lemma emergency_queue_neq_ev_key [simp]: "''deep_processing_emergency'' \<noteq> ev_key e"
  by (simp add: ev_key_def)






section \<open>Properties of the autothrottle\<close>

lemma throttle_target_floor:
  "max min_best_effort_k (py_int (real_of_int c * (1 - throttle_reduction)))
     = max 5 \<lfloor>real_of_int c * 0.6\<rfloor>"
proof (cases "0 \<le> c")
  case True
  then show ?thesis by (simp add: py_int_def min_best_effort_k_def throttle_reduction_def)
next
  case False
  then have neg: "real_of_int c * 0.6 < 0" by simp
  then have "\<lfloor>real_of_int c * 0.6\<rfloor> \<le> 0" "\<lceil>real_of_int c * 0.6\<rceil> \<le> 0"
    by (simp_all add: floor_le_zero ceiling_le_zero)
  with neg show ?thesis
    by (simp add: py_int_def min_best_effort_k_def throttle_reduction_def)
qed

lemma floor_six_tenths_less: "0 < c \<Longrightarrow> \<lfloor>real_of_int c * 0.6\<rfloor> < c"
  by (simp add: floor_less_iff)

lemma throttle_bucket_capacity:
  "capacity (throttle_bucket b) = min (capacity b) (max 5 \<lfloor>real_of_int (capacity b) * 0.6\<rfloor>)"
proof (cases "5 < capacity b")
  case True
  then have "\<lfloor>real_of_int (capacity b) * 0.6\<rfloor> < capacity b"
    by (intro floor_six_tenths_less) simp
  with True show ?thesis
    unfolding throttle_bucket_def Let_def throttle_target_floor by simp
next
  case False
  then show ?thesis
    unfolding throttle_bucket_def Let_def throttle_target_floor by simp
qed

lemma throttle_bucket_tokens:
  "tokens (throttle_bucket b) =
     (if capacity (throttle_bucket b) < capacity b
      then min (tokens b) (real_of_int (capacity (throttle_bucket b)))
      else tokens b)"
  unfolding throttle_bucket_def Let_def by simp

lemma throttle_bucket_other:
  "refill_rate (throttle_bucket b) = refill_rate b" "last_refill (throttle_bucket b) = last_refill b"
  unfolding throttle_bucket_def Let_def by simp_all

lemma throttle_bucket_lower: "min 5 (capacity b) \<le> capacity (throttle_bucket b)"
  unfolding throttle_bucket_capacity by simp

lemma throttle_bucket_upper: "capacity (throttle_bucket b) \<le> capacity b"
  unfolding throttle_bucket_capacity by simp

lemma throttle_bucket_funpow_bounds:
  "min 5 (capacity b) \<le> capacity ((throttle_bucket ^^ n) b)
   \<and> capacity ((throttle_bucket ^^ n) b) \<le> capacity b"
proof (induction n)
  case 0
  show ?case by simp
next
  case (Suc n)
  let ?b = "(throttle_bucket ^^ n) b"
  have "min 5 (capacity ?b) \<le> capacity (throttle_bucket ?b)" by (rule throttle_bucket_lower)
  moreover have "capacity (throttle_bucket ?b) \<le> capacity ?b" by (rule throttle_bucket_upper)
  ultimately show ?case using Suc by (simp add: min_def split: if_splits)
qed

lemma apply_autothrottle_buckets:
  "token_buckets (apply_autothrottle s) t = map_option throttle_bucket (token_buckets s t)"
  by (simp add: apply_autothrottle_def)

lemma apply_autothrottle_funpow_buckets:
  "token_buckets ((apply_autothrottle ^^ n) s) t = map_option (throttle_bucket ^^ n) (token_buckets s t)"
proof (induction n)
  case 0
  show ?case by (simp add: option.map_ident)
next
  case (Suc n)
  show ?case by (simp add: apply_autothrottle_buckets Suc option.map_comp comp_def)
qed

lemma default_capacity:
  "map_option capacity (token_buckets (new_scheduler now r) STANDARD) = Some 2"
  "map_option capacity (token_buckets (new_scheduler now r) PREMIUM) = Some 7"
  "map_option capacity (token_buckets (new_scheduler now r) ENTERPRISE) = Some 32"
  "token_buckets (new_scheduler now r) LITE_ONLY = None"
  by (simp_all add: new_scheduler_def initialize_token_buckets_def tier_limits_def)

text \<open>
  Claim C5, as amended. One application of the autothrottle replaces a bucket's capacity by
  \<open>max(5, floor(capacity * 0.6))\<close> only where that is smaller than the capacity, and then
  clamps the tokens to the new capacity; otherwise the bucket is left as it is. So the
  capacity never grows, and after any number of throttles it is at least the smaller of 5
  and the capacity at the start. From the default capacities one throttle leads to
  STANDARD = 2, PREMIUM = 5 and ENTERPRISE = 19; LITE_ONLY has no bucket.
\<close>

theorem apply_autothrottle_capacity:
  "token_buckets s t = Some b \<Longrightarrow>
     (\<exists>b'. token_buckets (apply_autothrottle s) t = Some b'
        \<and> capacity b' = min (capacity b) (max 5 \<lfloor>real_of_int (capacity b) * 0.6\<rfloor>)
        \<and> tokens b' = (if capacity b' < capacity b
                        then min (tokens b) (real_of_int (capacity b')) else tokens b)
        \<and> refill_rate b' = refill_rate b \<and> last_refill b' = last_refill b)
   \<and> (\<exists>b'. token_buckets ((apply_autothrottle ^^ n) s) t = Some b'
        \<and> min 5 (capacity b) \<le> capacity b' \<and> capacity b' \<le> capacity b)
   \<and> map_option capacity
        (token_buckets (apply_autothrottle (new_scheduler now r)) STANDARD) = Some 2
   \<and> map_option capacity
        (token_buckets (apply_autothrottle (new_scheduler now r)) PREMIUM) = Some 5
   \<and> map_option capacity
        (token_buckets (apply_autothrottle (new_scheduler now r)) ENTERPRISE) = Some 19
   \<and> token_buckets (apply_autothrottle (new_scheduler now r)) LITE_ONLY = None"
proof (intro conjI)
  assume b: "token_buckets s t = Some b"
  show "\<exists>b'. token_buckets (apply_autothrottle s) t = Some b'
        \<and> capacity b' = min (capacity b) (max 5 \<lfloor>real_of_int (capacity b) * 0.6\<rfloor>)
        \<and> tokens b' = (if capacity b' < capacity b
                        then min (tokens b) (real_of_int (capacity b')) else tokens b)
        \<and> refill_rate b' = refill_rate b \<and> last_refill b' = last_refill b"
    using b throttle_bucket_tokens [of b]
    by (simp add: apply_autothrottle_buckets throttle_bucket_capacity throttle_bucket_other)
  show "\<exists>b'. token_buckets ((apply_autothrottle ^^ n) s) t = Some b'
        \<and> min 5 (capacity b) \<le> capacity b' \<and> capacity b' \<le> capacity b"
    using b throttle_bucket_funpow_bounds [of b n] by (simp add: apply_autothrottle_funpow_buckets)
next
  show "map_option capacity
        (token_buckets (apply_autothrottle (new_scheduler now r)) STANDARD) = Some 2"
    by (simp add: apply_autothrottle_buckets new_scheduler_def initialize_token_buckets_def tier_limits_def throttle_bucket_capacity)
  show "map_option capacity
        (token_buckets (apply_autothrottle (new_scheduler now r)) PREMIUM) = Some 5"
    by (simp add: apply_autothrottle_buckets new_scheduler_def initialize_token_buckets_def tier_limits_def throttle_bucket_capacity)
  show "map_option capacity
        (token_buckets (apply_autothrottle (new_scheduler now r)) ENTERPRISE) = Some 19"
    by (simp add: apply_autothrottle_buckets new_scheduler_def initialize_token_buckets_def tier_limits_def throttle_bucket_capacity)
  show "token_buckets (apply_autothrottle (new_scheduler now r)) LITE_ONLY = None"
    by (simp add: apply_autothrottle_buckets new_scheduler_def initialize_token_buckets_def tier_limits_def)
qed

text \<open>
  The guard \<open>new_capacity < original_capacity\<close> makes the throttle a reduction only: the
  default STANDARD bucket, of capacity 2, keeps capacity 2, below \<open>min_best_effort_k\<close>,
  where the formula \<open>max(min_best_effort_k, floor(capacity * 0.6))\<close> gives 5.
\<close>

theorem apply_autothrottle_standard_counterexample:
  "map_option capacity
     (token_buckets (apply_autothrottle (new_scheduler 0 empty_redis)) STANDARD) = Some 2
   \<and> max min_best_effort_k \<lfloor>real_of_int 2 * (1 - throttle_reduction)\<rfloor> = 5
   \<and> 2 < min_best_effort_k"
  by (simp add: apply_autothrottle_buckets new_scheduler_def initialize_token_buckets_def
      tier_limits_def throttle_bucket_capacity min_best_effort_k_def throttle_reduction_def)

theorem apply_autothrottle_capacity_witness:
  "token_buckets (new_scheduler 0 empty_redis) PREMIUM
     = Some \<lparr> capacity = 7, tokens = 7, refill_rate = 7 / 60, last_refill = 0 \<rparr>
   \<and> (\<exists>b'. token_buckets (apply_autothrottle (new_scheduler 0 empty_redis)) PREMIUM = Some b'
        \<and> capacity b' = 5 \<and> tokens b' = 5)
   \<and> (\<exists>b'. token_buckets ((apply_autothrottle ^^ 3) (new_scheduler 0 empty_redis)) PREMIUM
              = Some b'
        \<and> 5 \<le> capacity b' \<and> capacity b' \<le> 7)"
proof -
  have h: "token_buckets (new_scheduler 0 empty_redis) PREMIUM
     = Some \<lparr> capacity = 7, tokens = 7, refill_rate = 7 / 60, last_refill = 0 \<rparr>"
    by (simp add: new_scheduler_def initialize_token_buckets_def tier_limits_def)
  from apply_autothrottle_capacity [OF h, of 3 0 empty_redis] h show ?thesis
    by auto
qed

section \<open>Properties of the life-safety preemption\<close>











section \<open>Properties of the candidate store\<close>

lemma zadd_member_present:
  "m \<in> fst ` set z \<Longrightarrow> map fst (zadd_member m sc z) = map fst z"
  by (induction z) force+

lemma zadd_member_absent:
  "m \<notin> fst ` set z \<Longrightarrow> zadd_member m sc z = z @ [(m, sc)]"
  by (induction z) auto



lemma distinct_zadd_member:
  "distinct (map fst z) \<Longrightarrow> distinct (map fst (zadd_member m sc z))"
proof (cases "m \<in> fst ` set z")
  case True
  assume "distinct (map fst z)"
  then show ?thesis by (simp add: zadd_member_present [OF True])
next
  case False
  assume "distinct (map fst z)"
  then show ?thesis using False by (simp add: zadd_member_absent [OF False])
qed






subsection \<open>Trimming to the cap\<close>


lemma fold_delete_key_hashes:
  "hashes (fold (\<lambda>eid r. delete_key r (ev_key eid)) es r) k =
     (if k \<in> ev_key ` set es then None else hashes r k)"
  by (induction es arbitrary: r) (auto simp: delete_key_def)
























subsection \<open>Order of the candidates read\<close>















section \<open>Properties of the session worker\<close>

lemma fold_process_one:
  "fold (process_one proc) xs (f, t) =
     (f\<lparr> events_processed := events_processed f @ map (event_entry proc) xs,
         threat_indicators := threat_indicators f
            @ concat (map (\<lambda>eid. case proc eid of Returned res \<Rightarrow> extract_threats eid res
                                                    | Raised msg \<Rightarrow> []) xs) \<rparr>,
      t + sum_list (map (\<lambda>eid. risk_of (event_entry proc eid)) xs))"
proof (induction xs arbitrary: f t)
  case Nil
  show ?case by simp
next
  case (Cons x xs)
  show ?case
  proof (cases "proc x")
    case (Returned res)
    then have step: "process_one proc x (f, t)
        = (f\<lparr> events_processed := events_processed f @ [res],
              threat_indicators := threat_indicators f @ extract_threats x res \<rparr>,
           t + risk_of res)"
      by (simp add: process_one_def)
    have "fold (process_one proc) (x # xs) (f, t)
            = fold (process_one proc) xs (process_one proc x (f, t))" by simp
    then show ?thesis
      unfolding step Cons using Returned by (simp add: event_entry_def)
  next
    case (Raised msg)
    then have step: "process_one proc x (f, t)
        = (f\<lparr> events_processed := events_processed f @ [error_entry x msg] \<rparr>, t)"
      by (simp add: process_one_def)
    have "fold (process_one proc) (x # xs) (f, t)
            = fold (process_one proc) xs (process_one proc x (f, t))" by simp
    then show ?thesis
      unfolding step Cons using Raised
      by (simp add: event_entry_def) (simp add: risk_of_def error_entry_def)
  qed
qed

lemma process_events_prefix:
  "\<exists>p \<le> length es.
     process_events clock proc start dl n es st
       = (fold (process_one proc) (take p es) st, n + (if p < length es then Suc p else p))
     \<and> (\<forall>j<p. (clock (n + j) - start) * 1000 \<le> dl * 1000 * 0.8)
     \<and> (p < length es \<longrightarrow> (clock (n + p) - start) * 1000 > dl * 1000 * 0.8)"
proof (induction es arbitrary: n st)
  case Nil
  show ?case by simp
next
  case (Cons e es)
  show ?case
  proof (cases "(clock n - start) * 1000 > dl * 1000 * 0.8")
    case True
    then have "process_events clock proc start dl n (e # es) st
       = (fold (process_one proc) (take 0 (e # es)) st, n + (if 0 < length (e # es) then Suc 0 else 0))
     \<and> (\<forall>j<0. (clock (n + j) - start) * 1000 \<le> dl * 1000 * 0.8)
     \<and> (0 < length (e # es) \<longrightarrow> (clock (n + 0) - start) * 1000 > dl * 1000 * 0.8)"
      by simp
    then show ?thesis by blast
  next
    case False
    from Cons.IH [of "Suc n" "process_one proc e st"] obtain p where
      p: "p \<le> length es"
         "process_events clock proc start dl (Suc n) es (process_one proc e st)
            = (fold (process_one proc) (take p es) (process_one proc e st),
               Suc n + (if p < length es then Suc p else p))"
         "\<forall>j<p. (clock (Suc n + j) - start) * 1000 \<le> dl * 1000 * 0.8"
         "p < length es \<longrightarrow> (clock (Suc n + p) - start) * 1000 > dl * 1000 * 0.8"
      by blast
    have a: "process_events clock proc start dl n (e # es) st
       = (fold (process_one proc) (take (Suc p) (e # es)) st,
          n + (if Suc p < length (e # es) then Suc (Suc p) else Suc p))"
      using False p(2) by simp
    have b: "\<forall>j<Suc p. (clock (n + j) - start) * 1000 \<le> dl * 1000 * 0.8"
    proof (intro allI impI)
      fix j assume "j < Suc p"
      show "(clock (n + j) - start) * 1000 \<le> dl * 1000 * 0.8"
      proof (cases j)
        case 0
        with False show ?thesis by simp
      next
        case (Suc i)
        with \<open>j < Suc p\<close> have "i < p" by simp
        with p(3) have "(clock (Suc n + i) - start) * 1000 \<le> dl * 1000 * 0.8" by blast
        with Suc show ?thesis by simp
      qed
    qed
    have c: "Suc p < length (e # es) \<longrightarrow> (clock (n + Suc p) - start) * 1000 > dl * 1000 * 0.8"
      using p(4) by simp
    have "Suc p \<le> length (e # es)" using p(1) by simp
    with a b c show ?thesis by blast
  qed
qed

lemma py_truediv_max:
  "py_truediv t (real (max 1 n)) = Inr (t / real (max 1 n))"
  "py_truediv t (real (max (Suc 0) n)) = Inr (t / real (max (Suc 0) n))"
  by (simp_all add: py_truediv_def max_def)

text \<open>What the \<^verbatim>\<open>try\<close> block computes once its two type-dependent steps have passed.\<close>

lemma session_findings_ok:
  assumes "deadline_in_seconds (deadline_ms s) = Inr dl"
    and "slice_to_K (event_ids s) (K s) = Inr evs"
  shows "\<exists>f n p. session_findings clock proc s = Inr (f, n)
          \<and> p \<le> length evs
          \<and> events_processed f = map (event_entry proc) (take p evs)
          \<and> (\<forall>j<p. (clock (Suc j) - clock 0) * 1000 \<le> dl * 1000 * 0.8)
          \<and> (p < length evs \<longrightarrow> (clock (Suc p) - clock 0) * 1000 > dl * 1000 * 0.8)
          \<and> risk_score f = sum_list (map risk_of (events_processed f))
                             / real (max 1 (length (events_processed f)))"
proof -
  let ?f0 = "\<lparr> findings_session_id = session_id s, events_processed = [],
      risk_score = 0, threat_indicators = [],
      stats = \<lparr> total_events = length evs, stats_deadline_ms = deadline_ms s,
                stats_tier = tier s \<rparr> \<rparr>"
  from process_events_prefix [of evs clock proc "clock 0" dl 1 "(?f0, 0)"] obtain p where
    p: "p \<le> length evs"
       "process_events clock proc (clock 0) dl 1 evs (?f0, 0)
          = (fold (process_one proc) (take p evs) (?f0, 0), 1 + (if p < length evs then Suc p else p))"
       "\<forall>j<p. (clock (1 + j) - clock 0) * 1000 \<le> dl * 1000 * 0.8"
       "p < length evs \<longrightarrow> (clock (1 + p) - clock 0) * 1000 > dl * 1000 * 0.8"
    by blast
  define f1 where "f1 = fst (fold (process_one proc) (take p evs) (?f0, 0))"
  define t1 where "t1 = snd (fold (process_one proc) (take p evs) (?f0, 0))"
  have ev: "events_processed f1 = map (event_entry proc) (take p evs)"
    by (simp add: f1_def fold_process_one)
  have tot: "t1 = sum_list (map risk_of (events_processed f1))"
    by (simp add: t1_def ev fold_process_one comp_def)
  have sf: "session_findings clock proc s
      = Inr (f1\<lparr> risk_score := t1 / real (max 1 (length (events_processed f1))) \<rparr>,
             1 + (if p < length evs then Suc p else p))"
    using assms p(2)
    by (simp add: session_findings_def Let_def f1_def t1_def py_truediv_max case_prod_beta)
  let ?f2 = "f1\<lparr> risk_score := t1 / real (max 1 (length (events_processed f1))) \<rparr>"
  have "session_findings clock proc s = Inr (?f2, 1 + (if p < length evs then Suc p else p))
          \<and> p \<le> length evs
          \<and> events_processed ?f2 = map (event_entry proc) (take p evs)
          \<and> (\<forall>j<p. (clock (Suc j) - clock 0) * 1000 \<le> dl * 1000 * 0.8)
          \<and> (p < length evs \<longrightarrow> (clock (Suc p) - clock 0) * 1000 > dl * 1000 * 0.8)
          \<and> risk_score ?f2 = sum_list (map risk_of (events_processed ?f2))
                             / real (max 1 (length (events_processed ?f2)))"
    using sf p(1) p(3) p(4) ev tot by simp
  then show ?thesis by blast
qed

lemma notify_all_lists:
  "lists (notify_all r w wall k ok es) ''scheduler_completions''
     = rev (map (\<lambda>(i, e). CompletionPayload
                  \<lparr> completion_event_id = e, completion_worker_id = worker_id w,
                    completion_success = ok, completed_at = wall i \<rparr>)
                (List.enumerate k es))
       @ lists r ''scheduler_completions''"
proof (induction es arbitrary: r k)
  case Nil
  show ?case by simp
next
  case (Cons e es)
  show ?case
    by (simp add: Cons notify_scheduler_completion_def lpush_def)
qed

lemma notify_all_strings: "strings (notify_all r w wall k ok es) = strings r"
  by (induction es arbitrary: r k) (simp_all add: notify_scheduler_completion_def lpush_def)

lemma result_key_neq [simp]: "''scheduler_completions'' \<noteq> result_key sid"
  by (simp add: result_key_def)

lemma handler_completions:
  "lists (handle_session_success wall w r s res) ''scheduler_completions''
     = rev (map (\<lambda>(i, e). CompletionPayload
                  \<lparr> completion_event_id = e, completion_worker_id = worker_id w,
                    completion_success = True, completed_at = wall i \<rparr>)
                (List.enumerate 1 (event_ids s)))
       @ lists r ''scheduler_completions''"
  "lists (handle_session_failure wall w r s res) ''scheduler_completions''
     = rev (map (\<lambda>(i, e). CompletionPayload
                  \<lparr> completion_event_id = e, completion_worker_id = worker_id w,
                    completion_success = False, completed_at = wall i \<rparr>)
                (List.enumerate 1 (event_ids s)))
       @ lists r ''scheduler_completions''"
  by (simp_all add: handle_session_success_def handle_session_failure_def Let_def
      notify_all_lists lpush_def setex_def)

lemma handler_result:
  "strings (handle_session_success wall w r s res) (result_key (session_id s)) = Some res"
  "strings (handle_session_failure wall w r s res) (result_key (session_id s)) = Some res"
  by (simp_all add: handle_session_success_def handle_session_failure_def Let_def
      notify_all_strings lpush_def setex_def)

lemma process_session_failure:
  assumes "session_findings clock proc s = Inl (e, n)"
  shows "process_session clock wall proc w r s =
          (\<lparr> result_session_id = session_id s, success = False,
             processing_duration_ms = py_int ((clock n - clock 0) * 1000),
             result_timestamp = wall 0, result_findings = None,
             error_message = Some (exception_text e) \<rparr>,
           w,
           handle_session_failure wall w r s
             \<lparr> result_session_id = session_id s, success = False,
               processing_duration_ms = py_int ((clock n - clock 0) * 1000),
               result_timestamp = wall 0, result_findings = None,
               error_message = Some (exception_text e) \<rparr>)"
  using assms by (simp add: process_session_def Let_def)

lemma process_session_success:
  assumes "session_findings clock proc s = Inr (f, n)"
  shows "process_session clock wall proc w r s =
          (\<lparr> result_session_id = session_id s, success = True,
             processing_duration_ms = py_int ((clock n - clock 0) * 1000),
             result_timestamp = wall 0, result_findings = Some f,
             error_message = None \<rparr>,
           w\<lparr> total_sessions_processed := total_sessions_processed w + 1 \<rparr>,
           handle_session_success wall w r s
             \<lparr> result_session_id = session_id s, success = True,
               processing_duration_ms = py_int ((clock n - clock 0) * 1000),
               result_timestamp = wall 0, result_findings = Some f,
               error_message = None \<rparr>)"
  using assms by (simp add: process_session_def Let_def)

text \<open>
  Claim C9. Whatever the outcome of a session, whether all its events are processed, the
  deadline cuts it short or the \<^verbatim>\<open>try\<close> block raises, the worker stores the session
  result under \<^verbatim>\<open>session_result:<id>\<close> and pushes onto \<open>scheduler_completions\<close> one
  record for each entry of the session's \<open>event_ids\<close>, in their order, carrying the event
  identifier, the worker's identifier, the session's success flag and the time of the
  push; events that were never started get their record too. When the block raises, the
  stored result has \<open>success = False\<close> and the exception's text as \<open>error_message\<close>.
\<close>

theorem process_session_completions:
  "lists (snd (snd (process_session clock wall proc w r s))) ''scheduler_completions''
     = rev (map (\<lambda>(i, e). CompletionPayload
                  \<lparr> completion_event_id = e, completion_worker_id = worker_id w,
                    completion_success = success (fst (process_session clock wall proc w r s)),
                    completed_at = wall i \<rparr>)
                (List.enumerate 1 (event_ids s)))
       @ lists r ''scheduler_completions''
   \<and> length (lists (snd (snd (process_session clock wall proc w r s))) ''scheduler_completions'')
       = length (event_ids s) + length (lists r ''scheduler_completions'')
   \<and> strings (snd (snd (process_session clock wall proc w r s))) (result_key (session_id s))
       = Some (fst (process_session clock wall proc w r s))
   \<and> (\<forall>e n. session_findings clock proc s = Inl (e, n) \<longrightarrow>
         success (fst (process_session clock wall proc w r s)) = False
         \<and> error_message (fst (process_session clock wall proc w r s)) = Some (exception_text e))
   \<and> (\<forall>f n. session_findings clock proc s = Inr (f, n) \<longrightarrow>
         success (fst (process_session clock wall proc w r s)) = True
         \<and> error_message (fst (process_session clock wall proc w r s)) = None)"
proof (cases "session_findings clock proc s")
  case (Inl a)
  obtain e n where a: "a = (e, n)" by (cases a)
  note eq = process_session_failure [OF Inl [unfolded a], of wall w r]
  show ?thesis
    unfolding eq using Inl a by (simp add: handler_completions(2) handler_result(2))
next
  case (Inr b)
  obtain f n where b: "b = (f, n)" by (cases b)
  note eq = process_session_success [OF Inr [unfolded b], of wall w r]
  show ?thesis
    unfolding eq using Inr b by (simp add: handler_completions(1) handler_result(1))
qed

lemma deadline_in_seconds_error: "deadline_in_seconds v = Inl e \<Longrightarrow> \<exists>msg. e = TypeError msg"
  by (cases v) (auto simp: deadline_in_seconds_def)

lemma slice_to_K_error: "slice_to_K xs v = Inl e \<Longrightarrow> \<exists>msg. e = TypeError msg"
  by (cases v) (auto simp: slice_to_K_def)

lemma session_findings_error:
  assumes "session_findings clock proc s = Inl (e, n)"
  shows "\<exists>msg. e = TypeError msg"
proof (cases "deadline_in_seconds (deadline_ms s)")
  case (Inl e')
  with assms have "e = e'" by (simp add: session_findings_def)
  with Inl show ?thesis by (auto dest: deadline_in_seconds_error)
next
  case (Inr dl)
  show ?thesis
  proof (cases "slice_to_K (event_ids s) (K s)")
    case (Inl e')
    with assms Inr have "e = e'" by (simp add: session_findings_def)
    with Inl show ?thesis by (auto dest: slice_to_K_error)
  next
    case (Inr evs)
    from session_findings_ok [OF \<open>deadline_in_seconds (deadline_ms s) = Inr dl\<close> Inr, of clock proc]
    obtain f n' where "session_findings clock proc s = Inr (f, n')" by blast
    with assms show ?thesis by simp
  qed
qed

lemma session_findings_mean:
  assumes "session_findings clock proc s = Inr (f, n)"
  shows "risk_score f = sum_list (map risk_of (events_processed f))
                          / real (max 1 (length (events_processed f)))"
proof (cases "deadline_in_seconds (deadline_ms s)")
  case (Inl e')
  with assms show ?thesis by (simp add: session_findings_def)
next
  case (Inr dl)
  show ?thesis
  proof (cases "slice_to_K (event_ids s) (K s)")
    case (Inl e')
    with assms Inr show ?thesis by (simp add: session_findings_def)
  next
    case (Inr evs)
    from session_findings_ok [OF \<open>deadline_in_seconds (deadline_ms s) = Inr dl\<close> Inr, of clock proc]
    obtain f' n' where "session_findings clock proc s = Inr (f', n')"
      "risk_score f' = sum_list (map risk_of (events_processed f'))
                          / real (max 1 (length (events_processed f')))" by blast
    with assms show ?thesis by simp
  qed
qed

text \<open>
  Claim C10. The mean risk of a session is the total divided by \<open>max(1, processed_count)\<close>:
  the division never raises, and when no event was processed, because the list of events
  to process is empty (no \<open>event_ids\<close>, or \<open>K = 0\<close>) or because the deadline check stops
  the loop at once, the session result carries findings with \<open>risk_score = 0.0\<close>.
\<close>

theorem session_risk_mean_defined:
  "(\<forall>msg n. session_findings clock proc s \<noteq> Inl (ZeroDivisionError msg, n))
   \<and> (\<forall>f n. session_findings clock proc s = Inr (f, n) \<longrightarrow>
         risk_score f = sum_list (map risk_of (events_processed f))
                          / real (max 1 (length (events_processed f)))
         \<and> (events_processed f = [] \<longrightarrow> risk_score f = 0.0))
   \<and> (deadline_in_seconds (deadline_ms s) = Inr dl
        \<and> slice_to_K (event_ids s) (K s) = Inr evs
        \<and> (evs = [] \<or> (clock 1 - clock 0) * 1000 > dl * 1000 * 0.8)
       \<longrightarrow> (\<exists>f. result_findings (fst (process_session clock wall proc w r s)) = Some f
               \<and> events_processed f = [] \<and> risk_score f = 0.0))"
proof (intro conjI allI impI)
  fix msg n
  show "session_findings clock proc s \<noteq> Inl (ZeroDivisionError msg, n)"
    using session_findings_error [of clock proc s "ZeroDivisionError msg" n] by auto
next
  fix f n
  assume a: "session_findings clock proc s = Inr (f, n)"
  show m: "risk_score f = sum_list (map risk_of (events_processed f))
                          / real (max 1 (length (events_processed f)))"
    by (rule session_findings_mean [OF a])
  show "risk_score f = 0.0" if "events_processed f = []"
    using m that by simp
next
  assume a: "deadline_in_seconds (deadline_ms s) = Inr dl
        \<and> slice_to_K (event_ids s) (K s) = Inr evs
        \<and> (evs = [] \<or> (clock 1 - clock 0) * 1000 > dl * 1000 * 0.8)"
  then have d: "deadline_in_seconds (deadline_ms s) = Inr dl"
    and k: "slice_to_K (event_ids s) (K s) = Inr evs" by simp_all
  from session_findings_ok [OF d k, of clock proc] obtain f n p where
    f: "session_findings clock proc s = Inr (f, n)" "p \<le> length evs"
       "events_processed f = map (event_entry proc) (take p evs)"
       "\<forall>j<p. (clock (Suc j) - clock 0) * 1000 \<le> dl * 1000 * 0.8"
       "risk_score f = sum_list (map risk_of (events_processed f))
                             / real (max 1 (length (events_processed f)))"
    by blast
  have "p = 0 \<or> evs = []"
  proof (rule ccontr)
    assume "\<not> (p = 0 \<or> evs = [])"
    then have "0 < p" "evs \<noteq> []" by simp_all
    with a have late: "(clock 1 - clock 0) * 1000 > dl * 1000 * 0.8" by simp
    from f(4) \<open>0 < p\<close> have "(clock (Suc 0) - clock 0) * 1000 \<le> dl * 1000 * 0.8" by blast
    with late show False by simp
  qed
  then have e: "events_processed f = []" using f(3) by auto
  with f(5) have "risk_score f = 0.0" by simp
  with e show "\<exists>f. result_findings (fst (process_session clock wall proc w r s)) = Some f
               \<and> events_processed f = [] \<and> risk_score f = 0.0"
    by (simp add: process_session_success [OF f(1)])
qed


lemma example_slice: "slice_to_K (event_ids example_session) (K example_session) = Inr [''e1'', ''e2'']"
  by (simp add: example_session_def slice_to_K_def py_slice_to_def)






lemma bad_K_findings:
  "session_findings still_clock stub_event bad_K_session
     = Inl (TypeError ''slice indices must be integers or None or have an __index__ method'', 1)"
  by (simp add: session_findings_def Let_def bad_K_session_def example_session_def
      deadline_in_seconds_def slice_to_K_def)

theorem process_session_completions_witness:
  "session_findings still_clock stub_event bad_K_session
     = Inl (TypeError ''slice indices must be integers or None or have an __index__ method'', 1)
   \<and> success (fst (process_session still_clock still_clock stub_event example_worker empty_redis
                      bad_K_session)) = False
   \<and> error_message (fst (process_session still_clock still_clock stub_event example_worker
                            empty_redis bad_K_session))
       = Some ''slice indices must be integers or None or have an __index__ method''
   \<and> lists (snd (snd (process_session still_clock still_clock stub_event example_worker
                         empty_redis bad_K_session))) ''scheduler_completions''
       = [CompletionPayload \<lparr> completion_event_id = ''e2'', completion_worker_id = ''worker_1'',
                               completion_success = False, completed_at = 0 \<rparr>,
          CompletionPayload \<lparr> completion_event_id = ''e1'', completion_worker_id = ''worker_1'',
                               completion_success = False, completed_at = 0 \<rparr>]
   \<and> success (fst (process_session still_clock still_clock stub_event example_worker empty_redis
                      example_session)) = True
   \<and> length (lists (snd (snd (process_session still_clock still_clock stub_event example_worker
                         empty_redis example_session))) ''scheduler_completions'') = 2"
proof -
  note bad = process_session_completions [of still_clock still_clock stub_event example_worker
               empty_redis bad_K_session]
  note good = process_session_completions [of still_clock still_clock stub_event example_worker
               empty_redis example_session]
  have fail: "success (fst (process_session still_clock still_clock stub_event example_worker
                empty_redis bad_K_session)) = False
      \<and> error_message (fst (process_session still_clock still_clock stub_event example_worker
                            empty_redis bad_K_session))
       = Some ''slice indices must be integers or None or have an __index__ method''"
    using bad bad_K_findings by simp
  have ids: "event_ids bad_K_session = [''e1'', ''e2'']" "event_ids example_session = [''e1'', ''e2'']"
    by (simp_all add: bad_K_session_def example_session_def)
  from session_findings_ok [OF _ example_slice, of "1" still_clock stub_event]
  obtain f n where ok: "session_findings still_clock stub_event example_session = Inr (f, n)"
    by (auto simp: example_session_def deadline_in_seconds_def)
  have succ: "success (fst (process_session still_clock still_clock stub_event example_worker
                empty_redis example_session)) = True"
    using good ok by simp
  have q: "lists empty_redis ''scheduler_completions'' = []" by (simp add: empty_redis_def)
  have one: "List.enumerate 1 [''e1'', ''e2''] = [(1, ''e1''), (2, ''e2'')]"
    by (simp add: enumerate_eq_zip upt_conv_Cons)
  from bad fail ids q one good succ ok bad_K_findings show ?thesis
    by (simp add: example_worker_def still_clock_def)
qed

theorem session_risk_mean_defined_witness:
  "deadline_in_seconds (deadline_ms zero_K_session) = Inr 1
   \<and> slice_to_K (event_ids zero_K_session) (K zero_K_session) = Inr []
   \<and> (\<exists>f. result_findings (fst (process_session still_clock still_clock stub_event
                                   example_worker empty_redis zero_K_session)) = Some f
         \<and> events_processed f = [] \<and> risk_score f = 0)
   \<and> deadline_in_seconds (deadline_ms example_session) = Inr 1
   \<and> slice_to_K (event_ids example_session) (K example_session) = Inr [''e1'', ''e2'']
   \<and> (late_clock 1 - late_clock 0) * 1000 > 1 * 1000 * 0.8
   \<and> (\<exists>f. result_findings (fst (process_session late_clock still_clock stub_event
                                   example_worker empty_redis example_session)) = Some f
         \<and> events_processed f = [] \<and> risk_score f = 0)"
proof -
  have z: "deadline_in_seconds (deadline_ms zero_K_session) = Inr 1
        \<and> slice_to_K (event_ids zero_K_session) (K zero_K_session) = Inr []
        \<and> ([] = [] \<or> (still_clock 1 - still_clock 0) * 1000 > 1 * 1000 * 0.8)"
    by (simp add: zero_K_session_def example_session_def deadline_in_seconds_def
        slice_to_K_def py_slice_to_def)
  have l: "deadline_in_seconds (deadline_ms example_session) = Inr 1
        \<and> slice_to_K (event_ids example_session) (K example_session) = Inr [''e1'', ''e2'']
        \<and> ([''e1'', ''e2''] = [] \<or> (late_clock 1 - late_clock 0) * 1000 > 1 * 1000 * 0.8)"
    by (simp add: example_slice) (simp add: example_session_def deadline_in_seconds_def late_clock_def)
  note tz = session_risk_mean_defined [of still_clock stub_event zero_K_session 1 "[]"
              still_clock example_worker empty_redis,
              THEN conjunct2, THEN conjunct2, THEN mp, OF z]
  note tl = session_risk_mean_defined [of late_clock stub_event example_session 1 "[''e1'', ''e2'']"
              still_clock example_worker empty_redis,
              THEN conjunct2, THEN conjunct2, THEN mp, OF l]
  from z l tz tl show ?thesis by (simp add: late_clock_def)
qed

end
